theory Spec2Isabelle
  imports Main "HOL-Library.Sublist"
begin

section \<open>The student dashboard screen (app/student-dashboard.tsx)\<close>

text \<open>
  The screen is a React function component. Its state lives in \<open>useState\<close> cells; every
  handler is a closure over the cells of the current render and over the navigation
  parameter \<open>currentUserId\<close>. The embedding keeps one record for the cells together with
  what the screen has asked of its surroundings (alerts, requests sent, suspended
  \<open>await\<close>s, timers, the route), and one function per handler. An \<open>async\<close> handler is cut at each \<open>await\<close>:
  the part before it runs when the event arrives, the part after it runs when the awaited
  promise settles. Each piece runs to completion. A press reaches the controls of the
  current state. The camera view keeps the decode callback that the last committed render
  gave it: \<open>handleBarCodeScanned\<close> never reads \<open>scanned\<close>, so every decode event that
  arrives before the next render is committed runs the handler again. Fonts are taken as loaded (the component renders
  nothing before), and the \<open>sound\<close> cell and the scan-line animation, which no handler
  reads, are left out.
\<close>

subsection \<open>Data\<close>

text \<open>
  \<open>Course\<close> is declared in \<open>lib/api\<close>; the screen reads \<open>_id\<close>, \<open>courseCode\<close>,
  \<open>courseName\<close> and \<open>students\<close>. \<open>students\<close> is \<open>None\<close> when the property is
  \<open>undefined\<close> or \<open>null\<close>.
\<close>

record course =
  course_id :: string
  courseCode :: string
  courseName :: string
  students :: "string list option"

text \<open>What the component closes over: the route parameter \<open>params.id\<close>, the base address
  \<open>API_CONFIG.baseURL\<close> of \<open>config\<close>, and the messages that the JavaScript engine gives to
  two TypeErrors: that of a property read or a method call on \<open>null\<close> or \<open>undefined\<close>,
  and that of an object that cannot be converted to a primitive value.\<close>

record runtime =
  currentUserId :: string
  baseURL :: string
  typeErrorText :: string
  primitiveErrorText :: string

datatype js_error = JsError (message: string)

text \<open>What \<open>await getCourses()\<close> gives: a rejection, a value without a \<open>filter\<close>
  method, or an array of courses.\<close>

datatype fetched = Rejected string | NotArray | Array "course list"

subsection \<open>The course filter\<close>

text \<open>\<open>Array.prototype.includes\<close> on an array of strings: a scan from the left.\<close>

fun array_includes :: "string list \<Rightarrow> string \<Rightarrow> bool" where
  "array_includes [] u = False"
| "array_includes (s # ss) u = (if s = u then True else array_includes ss u)"

text \<open>
  A method call on \<open>undefined\<close> raises a TypeError. \<open>call_includes\<close> is
  \<open>course.students.includes(currentUserId)\<close> on its own.
\<close>

definition call_includes :: "runtime \<Rightarrow> string list option \<Rightarrow> string \<Rightarrow> js_error + bool" where
  "call_includes rt st u =
     (case st of None \<Rightarrow> Inl (JsError (typeErrorText rt)) | Some ss \<Rightarrow> Inr (array_includes ss u))"

text \<open>An array is truthy, also the empty one; \<open>undefined\<close> and \<open>null\<close> are not.\<close>

definition truthy_students :: "string list option \<Rightarrow> bool" where
  "truthy_students st = (case st of None \<Rightarrow> False | Some ss \<Rightarrow> True)"

text \<open>The callback of line 74: \<open>course.students && course.students.includes(currentUserId)\<close>.
  A falsy left operand is the result, and \<open>filter\<close> reads it as false.\<close>

definition enrolled_callback :: "runtime \<Rightarrow> course \<Rightarrow> js_error + bool" where
  "enrolled_callback rt c =
     (if truthy_students (students c) then call_includes rt (students c) (currentUserId rt)
      else Inr False)"

text \<open>\<open>Array.prototype.filter\<close>: left to right, appending the kept elements; an exception
  of the callback ends the loop.\<close>

fun filter_loop :: "('a \<Rightarrow> js_error + bool) \<Rightarrow> 'a list \<Rightarrow> 'a list \<Rightarrow> js_error + 'a list" where
  "filter_loop f [] acc = Inr acc"
| "filter_loop f (x # xs) acc =
     (case f x of Inl e \<Rightarrow> Inl e
      | Inr keep \<Rightarrow> filter_loop f xs (if keep then acc @ [x] else acc))"

definition enrolledCourses :: "runtime \<Rightarrow> fetched \<Rightarrow> js_error + course list" where
  "enrolledCourses rt r =
     (case r of Rejected m \<Rightarrow> Inl (JsError m)
      | NotArray \<Rightarrow> Inl (JsError (typeErrorText rt))
      | Array cs \<Rightarrow> filter_loop (enrolled_callback rt) cs [])"

subsection \<open>The attendance response\<close>

text \<open>
  \<open>response.json()\<close> gives a parsed JSON value or rejects. A number carries its
  JavaScript print (\<open>String(n)\<close>), which is \<open>''0''\<close> exactly for the falsy numbers of
  JSON. An object is its members in the order of the text; for a repeated key
  \<open>JSON.parse\<close> keeps the last one.
\<close>

datatype json = JNull | JBool bool | JNum string | JStr string
  | JArr "json list" | JObj "(string \<times> json) list"

datatype body = Unparsable string | Parsed json

datatype response = Response (status: nat) (body: body)

text \<open>\<open>response.ok\<close>: the status is in the range 200 to 299.\<close>

definition ok :: "response \<Rightarrow> bool" where
  "ok r = (200 \<le> status r \<and> status r \<le> 299)"

text \<open>What \<open>await fetch(...)\<close> followed by \<open>await response.json()\<close> gives.\<close>

datatype settled = FetchRejected string | Responded response

text \<open>\<open>result.message\<close>: a TypeError on \<open>null\<close>, \<open>undefined\<close> (here \<open>None\<close>) where
  there is no such property.\<close>

definition get_message :: "runtime \<Rightarrow> json \<Rightarrow> js_error + json option" where
  "get_message rt j =
     (case j of JNull \<Rightarrow> Inl (JsError (typeErrorText rt))
      | JObj kvs \<Rightarrow> Inr (map_of (rev kvs) ''message'')
      | _ \<Rightarrow> Inr None)"

fun truthy :: "json option \<Rightarrow> bool" where
  "truthy None = False"
| "truthy (Some JNull) = False"
| "truthy (Some (JBool b)) = b"
| "truthy (Some (JNum n)) = (n \<noteq> ''0'')"
| "truthy (Some (JStr s)) = (s \<noteq> [])"
| "truthy (Some (JArr xs)) = True"
| "truthy (Some (JObj kvs)) = True"

fun join_comma :: "string list \<Rightarrow> string" where
  "join_comma [] = []"
| "join_comma [s] = s"
| "join_comma (s # t # ss) = s @ '','' @ join_comma (t # ss)"

text \<open>
  \<open>String(v)\<close>, which the \<open>Error\<close> constructor applies to its argument. A parsed object
  has no callable \<open>toString\<close> of its own: if it has a member of that name, the inherited
  method is hidden and the conversion raises a TypeError; otherwise the inherited method
  gives \<open>[object Object]\<close>. An array is joined with commas, left to right, with \<open>null\<close>
  elements printed as the empty string; the conversion of an element may raise.
\<close>

fun to_string :: "runtime \<Rightarrow> json \<Rightarrow> js_error + string"
  and to_strings :: "runtime \<Rightarrow> json list \<Rightarrow> js_error + string list" where
  "to_string rt JNull = Inr ''null''"
| "to_string rt (JBool b) = Inr (if b then ''true'' else ''false'')"
| "to_string rt (JNum n) = Inr n"
| "to_string rt (JStr s) = Inr s"
| "to_string rt (JArr xs) =
     (case to_strings rt xs of Inl e \<Rightarrow> Inl e | Inr ss \<Rightarrow> Inr (join_comma ss))"
| "to_string rt (JObj kvs) =
     (if ''toString'' \<in> set (map fst kvs) then Inl (JsError (primitiveErrorText rt))
      else Inr ''[object Object]'')"
| "to_strings rt [] = Inr []"
| "to_strings rt (x # xs) =
     (case (if x = JNull then Inr [] else to_string rt x) of
        Inl e \<Rightarrow> Inl e
      | Inr s \<Rightarrow> (case to_strings rt xs of Inl e \<Rightarrow> Inl e | Inr ss \<Rightarrow> Inr (s # ss)))"

text \<open>\<open>new Error(result.message || 'Failed to record attendance')\<close>: the value that the
  \<open>throw\<close> of line 133 raises, which is the TypeError of the conversion when that fails.\<close>

definition rejection_error :: "runtime \<Rightarrow> json option \<Rightarrow> js_error" where
  "rejection_error rt v =
     (case v of None \<Rightarrow> JsError ''Failed to record attendance''
      | Some j \<Rightarrow>
          if truthy (Some j)
          then (case to_string rt j of Inl e \<Rightarrow> e | Inr s \<Rightarrow> JsError s)
          else JsError ''Failed to record attendance'')"

text \<open>Lines 130 to 134, once the request has settled: the body is parsed first, the
  status is looked at afterwards. \<open>Inr ()\<close> is reaching line 136.\<close>

definition check_response :: "runtime \<Rightarrow> settled \<Rightarrow> js_error + unit" where
  "check_response rt x =
     (case x of FetchRejected m \<Rightarrow> Inl (JsError m)
      | Responded r \<Rightarrow>
          (case body r of Unparsable m \<Rightarrow> Inl (JsError m)
           | Parsed result \<Rightarrow>
               if \<not> ok r then
                 (case get_message rt result of Inl e \<Rightarrow> Inl e
                  | Inr v \<Rightarrow> Inl (rejection_error rt v))
               else Inr ()))"

text \<open>The text that the catch branch of lines 144 to 146 puts into \<open>errorMessage\<close>.\<close>

definition error_text :: "js_error \<Rightarrow> string" where
  "error_text e =
     (if message e = ''Network request failed''
      then ''Unable to connect to the server. Please check your internet connection.''
      else if message e \<noteq> [] then message e else ''Failed to record attendance'')"

subsection \<open>The state cells and the surroundings\<close>

record request =
  url :: string
  qrData :: string
  studentId :: string

text \<open>
  The first ten fields are the \<open>useState\<close> cells of lines 22 to 32. The others record
  what the screen has asked for: whether \<open>getCourses\<close> and the permission request are
  still pending, the alerts shown, the \<open>data\<close> of every \<open>handleBarCodeScanned\<close> call
  that waits in \<open>await playBeep()\<close>, the requests sent, how many of them have not
  settled, the due times of the pending \<open>setTimeout\<close> callbacks, the clock in
  milliseconds, the target of \<open>router.replace\<close>, and whether the camera view is mounted
  with \<open>handleBarCodeScanned\<close> as its decode callback.
\<close>

record world =
  courses :: "course list"
  isLoading :: bool
  error :: "string option"
  showLogoutConfirm :: bool
  isScannerVisible :: bool
  scanned :: bool
  hasPermission :: "bool option"
  showSuccessModal :: bool
  showErrorModal :: bool
  errorMessage :: string
  coursesPending :: bool
  permissionPending :: bool
  alerts :: "(string \<times> string) list"
  beeping :: "string list"
  requests :: "request list"
  unsettled :: nat
  timers :: "nat list"
  now :: nat
  route :: "string option"
  cameraBound :: bool

text \<open>The screen after its first render and its mount effects: the initial values of the
  cells, \<open>fetchEnrolledCourses\<close> and \<open>checkPermissions\<close> started.\<close>

definition mounted :: world where
  "mounted = \<lparr> courses = [], isLoading = True, error = None, showLogoutConfirm = False,
     isScannerVisible = False, scanned = False, hasPermission = None,
     showSuccessModal = False, showErrorModal = False, errorMessage = [],
     coursesPending = True, permissionPending = True, alerts = [], beeping = [],
     requests = [], unsettled = 0, timers = [], now = 0, route = None,
     cameraBound = False \<rparr>"

subsection \<open>The handlers\<close>

text \<open>\<open>fetchEnrolledCourses\<close> after \<open>await getCourses()\<close>: try, catch, finally.\<close>

definition fetchEnrolledCourses :: "runtime \<Rightarrow> fetched \<Rightarrow> world \<Rightarrow> world" where
  "fetchEnrolledCourses rt r w =
     (let w1 = (case enrolledCourses rt r of
                  Inr cs \<Rightarrow> w\<lparr>courses := cs\<rparr>
                | Inl e \<Rightarrow> w\<lparr>error := Some ''Failed to fetch courses. Please try again.''\<rparr>)
      in w1\<lparr>isLoading := False, coursesPending := False\<rparr>)"

datatype permission = PermissionRejected | PermissionStatus string

definition checkPermissions :: "permission \<Rightarrow> world \<Rightarrow> world" where
  "checkPermissions p w =
     (case p of
        PermissionStatus st \<Rightarrow>
          w\<lparr>hasPermission := Some (st = ''granted''), permissionPending := False\<rparr>
      | PermissionRejected \<Rightarrow>
          w\<lparr>alerts := alerts w @ [(''Error'', ''Failed to access camera'')],
            permissionPending := False\<rparr>)"

definition handleScanPress :: "world \<Rightarrow> world" where
  "handleScanPress w =
     (if hasPermission w = None
      then w\<lparr>alerts := alerts w @ [(''Error'', ''Requesting camera permission...'')]\<rparr>
      else if hasPermission w = Some False
      then w\<lparr>alerts := alerts w @ [(''Error'', ''No access to camera'')]\<rparr>
      else w\<lparr>isScannerVisible := True\<rparr>)"

text \<open>\<open>handleBarCodeScanned\<close> up to its first \<open>await\<close>: the latch, then \<open>playBeep()\<close>.\<close>

definition handleBarCodeScanned :: "string \<Rightarrow> world \<Rightarrow> world" where
  "handleBarCodeScanned d w = w\<lparr>scanned := True, beeping := beeping w @ [d]\<rparr>"

definition scan_request :: "runtime \<Rightarrow> string \<Rightarrow> request" where
  "scan_request rt d =
     \<lparr> url = baseURL rt @ ''/attendance/scan'', qrData = d, studentId = currentUserId rt \<rparr>"

text \<open>\<open>playBeep\<close> catches its own errors, so the call of index \<open>i\<close> goes on to \<open>fetch\<close>
  whenever its \<open>await\<close> returns.\<close>

definition after_beep :: "runtime \<Rightarrow> nat \<Rightarrow> world \<Rightarrow> world" where
  "after_beep rt i w =
     (if i < length (beeping w)
      then w\<lparr>beeping := take i (beeping w) @ drop (Suc i) (beeping w),
             requests := requests w @ [scan_request rt (beeping w ! i)],
             unsettled := Suc (unsettled w)\<rparr>
      else w)"

definition delay :: nat where
  "delay = 2000"

text \<open>Lines 136 to 141 and the catch branch of lines 142 to 149.\<close>

definition after_fetch :: "runtime \<Rightarrow> settled \<Rightarrow> world \<Rightarrow> world" where
  "after_fetch rt x w =
     (case check_response rt x of
        Inr u \<Rightarrow> w\<lparr>showSuccessModal := True, timers := timers w @ [now w + delay]\<rparr>
      | Inl e \<Rightarrow> w\<lparr>errorMessage := error_text e, showErrorModal := True, scanned := False\<rparr>)"

text \<open>The callback given to \<open>setTimeout\<close>.\<close>

definition timeout_callback :: "world \<Rightarrow> world" where
  "timeout_callback w =
     w\<lparr>showSuccessModal := False, isScannerVisible := False, scanned := False\<rparr>"

text \<open>The clock moves on by \<open>d\<close> milliseconds; every timer that is due by then fires.\<close>

definition time_passes :: "nat \<Rightarrow> world \<Rightarrow> world" where
  "time_passes d w =
     (fold (\<lambda>t. timeout_callback) (filter (\<lambda>t. t \<le> now w + d) (timers w)) w)
       \<lparr>timers := filter (\<lambda>t. \<not> t \<le> now w + d) (timers w), now := now w + d\<rparr>"

definition handleLogout :: "world \<Rightarrow> world" where
  "handleLogout w = w\<lparr>showLogoutConfirm := True\<rparr>"

definition handleConfirmLogout :: "world \<Rightarrow> world" where
  "handleConfirmLogout w = w\<lparr>route := Some ''/''\<rparr>"

subsection \<open>What is rendered\<close>

text \<open>The scroll view of lines 265 to 283.\<close>

datatype content = ActivityIndicator | ErrorContainer string | EmptyState
  | CourseCards "course list"

definition course_list :: "world \<Rightarrow> content" where
  "course_list w = (if length (courses w) = 0 then EmptyState else CourseCards (courses w))"

text \<open>\<open>error\<close> is tested for truthiness: \<open>null\<close> and the empty string show the list.\<close>

definition content :: "world \<Rightarrow> content" where
  "content w =
     (if isLoading w then ActivityIndicator
      else (case error w of None \<Rightarrow> course_list w
            | Some m \<Rightarrow> if m \<noteq> [] then ErrorContainer m else course_list w))"

text \<open>The prop of line 315.\<close>

definition onBarcodeScanned :: "world \<Rightarrow> (string \<Rightarrow> world \<Rightarrow> world) option" where
  "onBarcodeScanned w = (if scanned w then None else Some handleBarCodeScanned)"

text \<open>What a committed render gives the camera: the view of line 313 exists only inside the
  scanner overlay of line 285, and it has a decode callback only when the prop is defined.\<close>

definition camera_bound :: "world \<Rightarrow> bool" where
  "camera_bound w =
     (isScannerVisible w \<and> (case onBarcodeScanned w of None \<Rightarrow> False | Some h \<Rightarrow> True))"

subsection \<open>Events\<close>

datatype event =
    CoursesSettled fetched
  | PermissionSettled permission
  | HardwareBackPress
  | PressLogout
  | PressScan
  | PressCloseScanner
  | PressScanAgain
  | BarcodeScanned string
  | BeepDone nat
  | SubmissionSettled settled
  | TimePasses nat
  | RequestCloseSuccess
  | RequestCloseError
  | PressTryAgain
  | RequestCloseLogout
  | PressCancelLogout
  | PressConfirmLogout
  | Rendered

text \<open>
  One event. A control that is not rendered and a promise that is not pending do nothing.
  \<open>Rendered\<close> is the commit of a render, at which the camera view takes the callback of
  the current state; a decode event runs \<open>handleBarCodeScanned\<close> whenever the camera view
  holds it, whatever \<open>scanned\<close> has become since.
\<close>

fun handle :: "runtime \<Rightarrow> world \<Rightarrow> event \<Rightarrow> world" where
  "handle rt w (CoursesSettled r) =
     (if coursesPending w then fetchEnrolledCourses rt r w else w)"
| "handle rt w (PermissionSettled p) =
     (if permissionPending w then checkPermissions p w else w)"
| "handle rt w HardwareBackPress = w\<lparr>showLogoutConfirm := True\<rparr>"
| "handle rt w PressLogout = handleLogout w"
| "handle rt w PressScan =
     (case content w of CourseCards cs \<Rightarrow> handleScanPress w | _ \<Rightarrow> w)"
| "handle rt w PressCloseScanner =
     (if isScannerVisible w then w\<lparr>isScannerVisible := False, scanned := False\<rparr> else w)"
| "handle rt w PressScanAgain =
     (if isScannerVisible w \<and> scanned w then w\<lparr>scanned := False\<rparr> else w)"
| "handle rt w (BarcodeScanned d) =
     (if cameraBound w then handleBarCodeScanned d w else w)"
| "handle rt w (BeepDone i) = after_beep rt i w"
| "handle rt w (SubmissionSettled x) =
     (if 0 < unsettled w then after_fetch rt x (w\<lparr>unsettled := unsettled w - 1\<rparr>) else w)"
| "handle rt w (TimePasses d) = time_passes d w"
| "handle rt w RequestCloseSuccess =
     (if showSuccessModal w then w\<lparr>showSuccessModal := False\<rparr> else w)"
| "handle rt w RequestCloseError =
     (if showErrorModal w then w\<lparr>showErrorModal := False\<rparr> else w)"
| "handle rt w PressTryAgain =
     (if showErrorModal w then w\<lparr>showErrorModal := False\<rparr> else w)"
| "handle rt w RequestCloseLogout =
     (if showLogoutConfirm w then w\<lparr>showLogoutConfirm := False\<rparr> else w)"
| "handle rt w PressCancelLogout =
     (if showLogoutConfirm w then w\<lparr>showLogoutConfirm := False\<rparr> else w)"
| "handle rt w PressConfirmLogout =
     (if showLogoutConfirm w then handleConfirmLogout w else w)"
| "handle rt w Rendered = w\<lparr>cameraBound := camera_bound w\<rparr>"

fun run :: "runtime \<Rightarrow> world \<Rightarrow> event list \<Rightarrow> world" where
  "run rt w [] = w"
| "run rt w (e # es) = run rt (handle rt w e) es"

subsection \<open>Runs and what is counted along them\<close>

text \<open>The decode events that find the camera view holding the callback.\<close>

fun handled_decode :: "world \<Rightarrow> event \<Rightarrow> bool" where
  "handled_decode w (BarcodeScanned d) = cameraBound w"
| "handled_decode w e = False"

fun decodes_handled :: "runtime \<Rightarrow> world \<Rightarrow> event list \<Rightarrow> nat" where
  "decodes_handled rt w [] = 0"
| "decodes_handled rt w (e # es) =
     (if handled_decode w e then 1 else 0) + decodes_handled rt (handle rt w e) es"

text \<open>How many of the three modals are visible, and how many of their flags differ between two states.\<close>

definition active_dialogs :: "world \<Rightarrow> nat" where
  "active_dialogs w =
     length (filter id [showSuccessModal w, showErrorModal w, showLogoutConfirm w])"

definition dialogs_changed :: "world \<Rightarrow> world \<Rightarrow> nat" where
  "dialogs_changed w w' =
     length (filter id [showSuccessModal w \<noteq> showSuccessModal w',
       showErrorModal w \<noteq> showErrorModal w', showLogoutConfirm w \<noteq> showLogoutConfirm w'])"

subsection \<open>The specification of the course list\<close>

text \<open>A course lists the user when its membership list is present and contains the identifier.\<close>

definition lists_user :: "string \<Rightarrow> course \<Rightarrow> bool" where
  "lists_user u c = (case students c of None \<Rightarrow> False | Some ss \<Rightarrow> u \<in> set ss)"

subsection \<open>Sample data\<close>

text \<open>A student \<open>u1\<close>, three courses of which the second has no membership list, and event
  sequences that lead to an open scanner, to a sent request, to two decodes separated by
  closing and reopening the scanner or by \<open>Scan Again\<close>, to two decodes within one render,
  and to two successful submissions one second apart.\<close>

definition u1_runtime :: runtime where
  "u1_runtime = \<lparr> currentUserId = ''u1'', baseURL = ''http://localhost:5000/api'',
     typeErrorText = ''Cannot read property of null'',
     primitiveErrorText = ''Cannot convert object to primitive value'' \<rparr>"

definition math :: course where
  "math = \<lparr> course_id = ''c1'', courseCode = ''MATH101'', courseName = ''Calculus'',
     students = Some [''u1''] \<rparr>"

definition art :: course where
  "art = \<lparr> course_id = ''c2'', courseCode = ''ART200'', courseName = ''Drawing'',
     students = None \<rparr>"

definition physics :: course where
  "physics = \<lparr> course_id = ''c3'', courseCode = ''PHY110'', courseName = ''Mechanics'',
     students = Some [''u2'', ''u1''] \<rparr>"

definition granted_scan :: "event list" where
  "granted_scan = [CoursesSettled (Array [math, art, physics]),
     PermissionSettled (PermissionStatus ''granted''), PressScan, Rendered]"

definition token_sent :: "event list" where
  "token_sent = granted_scan @ [BarcodeScanned ''TOKEN123'', BeepDone 0]"

definition session_expired :: settled where
  "session_expired = Responded (Response 400 (Parsed (JObj [(''message'', JStr ''Session expired'')])))"

definition ok_200 :: settled where
  "ok_200 = Responded (Response 200 (Parsed (JObj [])))"

definition reopened :: "event list" where
  "reopened = granted_scan @
     [BarcodeScanned ''A'', Rendered, PressCloseScanner, Rendered, PressScan, Rendered,
      BarcodeScanned ''B'']"

definition rescanned :: "event list" where
  "rescanned = granted_scan @
     [BarcodeScanned ''A'', Rendered, PressScanAgain, Rendered, BarcodeScanned ''B'']"

definition overlapping :: "event list" where
  "overlapping = granted_scan @ [BarcodeScanned ''A'', BarcodeScanned ''B'']"

definition two_successes :: "event list" where
  "two_successes = rescanned @
     [BeepDone 0, BeepDone 0, SubmissionSettled ok_200, TimePasses 1000,
      SubmissionSettled ok_200]"

section \<open>Properties\<close>

subsection \<open>The course filter computes a filter\<close>

lemma array_includes_set: "array_includes ss u = (u \<in> set ss)"
  by (induction ss) auto

lemma enrolled_callback_value: "enrolled_callback rt c = Inr (lists_user (currentUserId rt) c)"
  by (simp add: enrolled_callback_def truthy_students_def call_includes_def lists_user_def
      array_includes_set split: option.splits)

lemma filter_loop_total:
  "(\<And>x. f x = Inr (p x)) \<Longrightarrow> filter_loop f xs acc = Inr (acc @ filter p xs)"
  by (induction xs arbitrary: acc) auto

lemma enrolledCourses_Array:
  "enrolledCourses rt (Array cs) = Inr (filter (lists_user (currentUserId rt)) cs)"
  using filter_loop_total [of "enrolled_callback rt" "lists_user (currentUserId rt)" cs "[]"]
  by (simp add: enrolledCourses_def enrolled_callback_value)

subsection \<open>Runs of the sample events\<close>

lemma run_append: "run rt w (xs @ ys) = run rt (run rt w xs) ys"
  by (induction xs arbitrary: w) auto

lemma granted_scan_state:
  "run u1_runtime mounted granted_scan =
     mounted\<lparr>courses := [math, physics], isLoading := False, isScannerVisible := True,
       hasPermission := Some True, coursesPending := False, permissionPending := False,
       cameraBound := True\<rparr>"
  by (simp add: granted_scan_def mounted_def fetchEnrolledCourses_def enrolledCourses_Array
      lists_user_def u1_runtime_def math_def art_def physics_def checkPermissions_def
      content_def course_list_def handleScanPress_def camera_bound_def onBarcodeScanned_def)

lemma token_sent_state:
  "run u1_runtime mounted token_sent =
     mounted\<lparr>courses := [math, physics], isLoading := False, isScannerVisible := True,
       scanned := True, hasPermission := Some True, coursesPending := False,
       permissionPending := False,
       requests := [\<lparr> url = ''http://localhost:5000/api/attendance/scan'',
                      qrData = ''TOKEN123'', studentId = ''u1'' \<rparr>],
       unsettled := 1, cameraBound := True\<rparr>"
  by (simp add: token_sent_def run_append granted_scan_state)
     (simp add: mounted_def handleBarCodeScanned_def after_beep_def scan_request_def
       u1_runtime_def)

lemma reopened_state:
  "run u1_runtime mounted reopened =
     mounted\<lparr>courses := [math, physics], isLoading := False, isScannerVisible := True,
       scanned := True, hasPermission := Some True, coursesPending := False,
       permissionPending := False, beeping := [''A'', ''B''], cameraBound := True\<rparr>"
  by (simp add: reopened_def run_append granted_scan_state)
     (simp add: mounted_def onBarcodeScanned_def handleBarCodeScanned_def content_def
       course_list_def handleScanPress_def camera_bound_def)

lemma rescanned_state:
  "run u1_runtime mounted rescanned =
     mounted\<lparr>courses := [math, physics], isLoading := False, isScannerVisible := True,
       scanned := True, hasPermission := Some True, coursesPending := False,
       permissionPending := False, beeping := [''A'', ''B''], cameraBound := True\<rparr>"
  by (simp add: rescanned_def run_append granted_scan_state)
     (simp add: mounted_def onBarcodeScanned_def handleBarCodeScanned_def camera_bound_def)

lemma overlapping_state:
  "run u1_runtime mounted overlapping =
     mounted\<lparr>courses := [math, physics], isLoading := False, isScannerVisible := True,
       scanned := True, hasPermission := Some True, coursesPending := False,
       permissionPending := False, beeping := [''A'', ''B''], cameraBound := True\<rparr>"
  by (simp add: overlapping_def run_append granted_scan_state)
     (simp add: mounted_def handleBarCodeScanned_def)

lemma two_successes_state:
  "run u1_runtime mounted two_successes =
     mounted\<lparr>courses := [math, physics], isLoading := False, isScannerVisible := True,
       scanned := True, hasPermission := Some True, showSuccessModal := True,
       coursesPending := False, permissionPending := False,
       requests := [scan_request u1_runtime ''A'', scan_request u1_runtime ''B''],
       timers := [2000, 3000], now := 1000, cameraBound := True\<rparr>"
  by (simp add: two_successes_def run_append rescanned_state)
     (simp add: mounted_def after_beep_def after_fetch_def check_response_def ok_200_def
       ok_def delay_def time_passes_def)

subsection \<open>Timers\<close>

lemma timeout_callback_twice: "timeout_callback (timeout_callback w) = timeout_callback w"
  by (simp add: timeout_callback_def)

lemma fold_timeout_callback:
  "fold (\<lambda>t. timeout_callback) ts w = (if ts = [] then w else timeout_callback w)"
proof (induction ts arbitrary: w)
  case Nil
  then show ?case by simp
next
  case (Cons t ts)
  then show ?case by (simp add: timeout_callback_twice)
qed

lemma time_passes_quiet:
  assumes "\<forall>t\<in>set (timers w). now w + d < t"
  shows "time_passes d w = w\<lparr>now := now w + d\<rparr>"
proof -
  have "filter (\<lambda>t. t \<le> now w + d) (timers w) = []"
    using assms by (auto simp add: filter_empty_conv)
  moreover have "filter (\<lambda>t. \<not> t \<le> now w + d) (timers w) = timers w"
    using assms by (auto simp add: filter_id_conv)
  ultimately show ?thesis by (simp add: time_passes_def)
qed

lemma time_passes_fires:
  assumes "t \<in> set (timers w)" and "t \<le> now w + d"
  shows "\<not> showSuccessModal (time_passes d w) \<and> \<not> isScannerVisible (time_passes d w)
    \<and> \<not> scanned (time_passes d w)"
proof -
  have "filter (\<lambda>t. t \<le> now w + d) (timers w) \<noteq> []"
    using assms by (auto simp add: filter_empty_conv)
  then show ?thesis
    by (simp add: time_passes_def fold_timeout_callback timeout_callback_def)
qed

lemma time_passes_keeps_closed:
  assumes "\<not> showSuccessModal w \<and> \<not> isScannerVisible w \<and> \<not> scanned w"
  shows "\<not> showSuccessModal (time_passes d w) \<and> \<not> isScannerVisible (time_passes d w)
    \<and> \<not> scanned (time_passes d w)"
  using assms by (simp add: time_passes_def fold_timeout_callback timeout_callback_def)

lemma time_passes_timers:
  "timers (time_passes d w) = filter (\<lambda>t. \<not> t \<le> now w + d) (timers w)"
  "now (time_passes d w) = now w + d"
  by (simp_all add: time_passes_def)

lemma time_passes_dialogs:
  "showErrorModal (time_passes d w) = showErrorModal w"
  "showLogoutConfirm (time_passes d w) = showLogoutConfirm w"
  "showSuccessModal (time_passes d w) \<longrightarrow> showSuccessModal w"
  "scanned (time_passes d w) \<longrightarrow> scanned w"
  "beeping (time_passes d w) = beeping w"
  "requests (time_passes d w) = requests w"
  by (simp_all add: time_passes_def fold_timeout_callback timeout_callback_def)

lemma time_passes_clears:
  "scanned w \<Longrightarrow> \<not> scanned (time_passes d w) \<Longrightarrow> \<exists>t\<in>set (timers w). t \<le> now w + d"
  by (auto simp add: time_passes_def fold_timeout_callback timeout_callback_def filter_empty_conv
      split: if_splits)

lemma waiting_quiet:
  "\<forall>t\<in>set (timers w). now w + sum_list ds < t \<Longrightarrow>
   run rt w (map TimePasses ds) = w\<lparr>now := now w + sum_list ds\<rparr>"
proof (induction ds arbitrary: w)
  case Nil
  then show ?case by simp
next
  case (Cons d ds)
  have q: "time_passes d w = w\<lparr>now := now w + d\<rparr>"
    using Cons.prems by (intro time_passes_quiet) auto
  have "\<forall>t\<in>set (timers (w\<lparr>now := now w + d\<rparr>)). now (w\<lparr>now := now w + d\<rparr>) + sum_list ds < t"
    using Cons.prems by (simp add: add.assoc)
  from Cons.IH [OF this] show ?case by (simp add: q add.assoc)
qed

lemma waiting_keeps_closed:
  "\<not> showSuccessModal w \<and> \<not> isScannerVisible w \<and> \<not> scanned w \<Longrightarrow>
   \<not> showSuccessModal (run rt w (map TimePasses ds))
   \<and> \<not> isScannerVisible (run rt w (map TimePasses ds))
   \<and> \<not> scanned (run rt w (map TimePasses ds))"
proof (induction ds arbitrary: w)
  case Nil
  then show ?case by simp
next
  case (Cons d ds)
  from Cons.IH [OF time_passes_keeps_closed [OF Cons.prems]] show ?case by simp
qed

lemma waiting_fires:
  "t \<in> set (timers w) \<Longrightarrow> now w < t \<Longrightarrow> t \<le> now w + sum_list ds \<Longrightarrow>
   \<not> showSuccessModal (run rt w (map TimePasses ds))
   \<and> \<not> isScannerVisible (run rt w (map TimePasses ds))
   \<and> \<not> scanned (run rt w (map TimePasses ds))"
proof (induction ds arbitrary: w)
  case Nil
  then show ?case by simp
next
  case (Cons d ds)
  show ?case
  proof (cases "t \<le> now w + d")
    case True
    from waiting_keeps_closed [OF time_passes_fires [OF Cons.prems(1) True]]
    show ?thesis by simp
  next
    case False
    then have "t \<in> set (timers (time_passes d w))" and "now (time_passes d w) < t"
      and "t \<le> now (time_passes d w) + sum_list ds"
      using Cons.prems by (simp_all add: time_passes_timers)
    from Cons.IH [OF this] show ?thesis by simp
  qed
qed

subsection \<open>Single events\<close>

lemma errorMessage_after_failure:
  "check_response rt x = Inl e \<Longrightarrow> errorMessage (after_fetch rt x v) = error_text e"
  by (simp add: after_fetch_def)

lemma handle_dialogs:
  "dialogs_changed w (handle rt w e) \<le> 1"
proof (cases e)
  case (SubmissionSettled x)
  then show ?thesis
    by (simp add: dialogs_changed_def after_fetch_def split: sum.splits)
next
  case (TimePasses d)
  then show ?thesis
    by (simp add: dialogs_changed_def time_passes_dialogs)
next
  case (BarcodeScanned d)
  then show ?thesis
    by (simp add: dialogs_changed_def handleBarCodeScanned_def)
next
  case (BeepDone i)
  then show ?thesis
    by (simp add: dialogs_changed_def after_beep_def)
next
  case (CoursesSettled r)
  then show ?thesis
    by (simp add: dialogs_changed_def fetchEnrolledCourses_def Let_def split: sum.splits)
next
  case (PermissionSettled p)
  then show ?thesis
    by (simp add: dialogs_changed_def checkPermissions_def split: permission.splits)
next
  case PressScan
  then show ?thesis
    by (simp add: dialogs_changed_def handleScanPress_def split: content.splits)
qed (simp_all add: dialogs_changed_def handleLogout_def handleConfirmLogout_def)

lemma dialogs_bound:
  "active_dialogs w' \<le> active_dialogs w + dialogs_changed w w'"
  by (auto simp add: active_dialogs_def dialogs_changed_def)

lemma handle_initiates:
  "length (requests (handle rt w e)) + length (beeping (handle rt w e)) =
   length (requests w) + length (beeping w) + (if handled_decode w e then 1 else 0)"
proof (cases e)
  case (SubmissionSettled x)
  then show ?thesis
    by (simp add: after_fetch_def split: sum.splits)
next
  case (TimePasses d)
  then show ?thesis
    by (simp add: time_passes_dialogs)
next
  case (BarcodeScanned d)
  then show ?thesis
    by (simp add: handleBarCodeScanned_def)
next
  case (BeepDone i)
  then show ?thesis
    by (auto simp add: after_beep_def)
next
  case (CoursesSettled r)
  then show ?thesis
    by (simp add: fetchEnrolledCourses_def Let_def split: sum.splits)
next
  case (PermissionSettled p)
  then show ?thesis
    by (simp add: checkPermissions_def split: permission.splits)
next
  case PressScan
  then show ?thesis
    by (simp add: handleScanPress_def split: content.splits)
qed (simp_all add: handleLogout_def handleConfirmLogout_def)

lemma run_initiates:
  "length (requests (run rt w es)) + length (beeping (run rt w es)) =
   length (requests w) + length (beeping w) + decodes_handled rt w es"
proof (induction es arbitrary: w)
  case Nil
  then show ?case by simp
next
  case (Cons e es)
  show ?case
    using Cons.IH [of "handle rt w e"] handle_initiates [of rt w e] by simp
qed

lemma rise_is_handled_decode:
  assumes "\<not> scanned w" and "scanned (handle rt w e)"
  shows "handled_decode w e"
proof (cases e)
  case (SubmissionSettled x)
  then show ?thesis
    using assms by (simp add: after_fetch_def split: sum.splits if_splits)
next
  case (TimePasses d)
  then show ?thesis
    using assms time_passes_dialogs(4) [of d w] by simp
next
  case (BarcodeScanned d)
  then show ?thesis
    using assms by (simp split: if_splits)
next
  case (BeepDone i)
  then show ?thesis
    using assms by (simp add: after_beep_def split: if_splits)
next
  case (CoursesSettled r)
  then show ?thesis
    using assms by (simp add: fetchEnrolledCourses_def Let_def split: sum.splits if_splits)
next
  case (PermissionSettled p)
  then show ?thesis
    using assms by (simp add: checkPermissions_def split: permission.splits if_splits)
next
  case PressScan
  then show ?thesis
    using assms by (simp add: handleScanPress_def split: content.splits if_splits)
qed (use assms in \<open>simp_all add: handleLogout_def handleConfirmLogout_def split: if_splits\<close>)

section \<open>The claims\<close>

subsection \<open>C1: the displayed courses\<close>

text \<open>Claim C1. When \<open>getCourses\<close> resolves with the collection \<open>C\<close>, the course list of the
  screen is the courses of \<open>C\<close> whose membership list contains the current user, in the order
  of \<open>C\<close>: it is a subsequence of \<open>C\<close>, and it is what the scroll view shows (the empty-state
  view when there is none).\<close>

theorem enrolled_courses_displayed:
  assumes "coursesPending w" and "error w = None"
  shows "courses (handle rt w (CoursesSettled (Array C))) = filter (lists_user (currentUserId rt)) C
    \<and> subseq (courses (handle rt w (CoursesSettled (Array C)))) C
    \<and> content (handle rt w (CoursesSettled (Array C))) =
        (if filter (lists_user (currentUserId rt)) C = [] then EmptyState
         else CourseCards (filter (lists_user (currentUserId rt)) C))"
  using assms by (simp add: fetchEnrolledCourses_def enrolledCourses_Array content_def course_list_def)

text \<open>Claim C1, at the student \<open>u1\<close> and three fetched courses.\<close>

theorem enrolled_courses_displayed_witness:
  "coursesPending mounted \<and> error mounted = None
   \<and> courses (handle u1_runtime mounted (CoursesSettled (Array [math, art, physics]))) = [math, physics]
   \<and> content (handle u1_runtime mounted (CoursesSettled (Array [math, art, physics]))) = CourseCards [math, physics]"
proof -
  have p: "coursesPending mounted" and e: "error mounted = None" by (simp_all add: mounted_def)
  show ?thesis using p e enrolled_courses_displayed [OF p e, of u1_runtime "[math, art, physics]"]
    by (simp add: lists_user_def u1_runtime_def math_def art_def physics_def)
qed

subsection \<open>C2: the scanned latch\<close>

text \<open>Claim C2 as stated fails, in two ways. A submission is sent only after the awaited
  \<open>playBeep()\<close> returns, so a decode that was handled before the latch was cleared sends
  its request after a later decode has set the latch again: after closing and reopening
  the scanner, and also after \<open>Scan Again\<close>, the requests for \<open>A\<close> and for \<open>B\<close> are both
  sent while \<open>scanned\<close> is true, with no change of the latch between them. And the handler
  does not read the latch: two decode events that reach the same render both run it, so
  that the latch, set by the first, is true when the second starts its submission.\<close>

theorem two_submissions_while_latched:
  "scanned (run u1_runtime mounted reopened)
   \<and> map qrData (requests (run u1_runtime mounted reopened)) = []
   \<and> scanned (run u1_runtime mounted (reopened @ [BeepDone 0]))
   \<and> map qrData (requests (run u1_runtime mounted (reopened @ [BeepDone 0]))) = [''A'']
   \<and> scanned (run u1_runtime mounted (reopened @ [BeepDone 0, BeepDone 0]))
   \<and> map qrData (requests (run u1_runtime mounted (reopened @ [BeepDone 0, BeepDone 0]))) = [''A'', ''B'']
   \<and> scanned (run u1_runtime mounted rescanned)
   \<and> map qrData (requests (run u1_runtime mounted rescanned)) = []
   \<and> scanned (run u1_runtime mounted (rescanned @ [BeepDone 0]))
   \<and> map qrData (requests (run u1_runtime mounted (rescanned @ [BeepDone 0]))) = [''A'']
   \<and> scanned (run u1_runtime mounted (rescanned @ [BeepDone 0, BeepDone 0]))
   \<and> map qrData (requests (run u1_runtime mounted (rescanned @ [BeepDone 0, BeepDone 0]))) = [''A'', ''B'']
   \<and> \<not> scanned (run u1_runtime mounted granted_scan)
   \<and> scanned (run u1_runtime mounted (granted_scan @ [BarcodeScanned ''A'']))
   \<and> beeping (run u1_runtime mounted (granted_scan @ [BarcodeScanned ''A''])) = [''A'']
   \<and> scanned (run u1_runtime mounted overlapping)
   \<and> beeping (run u1_runtime mounted overlapping) = [''A'', ''B'']
   \<and> scanned (run u1_runtime mounted (overlapping @ [BeepDone 0]))
   \<and> scanned (run u1_runtime mounted (overlapping @ [BeepDone 0, BeepDone 0]))
   \<and> map qrData (requests (run u1_runtime mounted (overlapping @ [BeepDone 0, BeepDone 0]))) = [''A'', ''B'']"
  by (simp add: run_append reopened_state rescanned_state overlapping_state granted_scan_state)
     (simp add: mounted_def after_beep_def scan_request_def handleBarCodeScanned_def)

text \<open>Claim C2, amended. The handler sets the latch in the step in which the decode event
  arrives, before the sound and before any request. A render made while the latch is set
  gives the camera no decode callback, and once it is committed a decode event changes
  nothing. The latch is set by nothing but a decode event that finds the callback bound.
  Along every run the requests sent plus the calls still waiting for the sound grow by
  exactly the number of such decode events: each of them starts one submission, whether or
  not the latch is already set, and nothing else starts one.\<close>

theorem decode_sets_latch_then_submits:
  "(cameraBound w \<longrightarrow>
      handle rt w (BarcodeScanned d) = w\<lparr>scanned := True, beeping := beeping w @ [d]\<rparr>
      \<and> requests (handle rt w (BarcodeScanned d)) = requests w)
   \<and> (scanned w \<longrightarrow>
        onBarcodeScanned w = None \<and> \<not> cameraBound (handle rt w Rendered)
      \<and> handle rt (handle rt w Rendered) (BarcodeScanned d) = handle rt w Rendered)
   \<and> (\<not> scanned w \<and> scanned (handle rt w e) \<longrightarrow> handled_decode w e)
   \<and> length (requests (run rt w es)) + length (beeping (run rt w es)) =
       length (requests w) + length (beeping w) + decodes_handled rt w es"
  using run_initiates [of rt w es] rise_is_handled_decode [of w rt e]
  by (simp add: onBarcodeScanned_def handleBarCodeScanned_def camera_bound_def)

text \<open>Claim C2, amended, at the run that scans \<open>TOKEN123\<close>.\<close>

theorem decode_sets_latch_then_submits_witness:
  "cameraBound (run u1_runtime mounted granted_scan)
   \<and> \<not> scanned (run u1_runtime mounted granted_scan)
   \<and> scanned (handle u1_runtime (run u1_runtime mounted granted_scan) (BarcodeScanned ''TOKEN123''))
   \<and> requests (handle u1_runtime (run u1_runtime mounted granted_scan) (BarcodeScanned ''TOKEN123'')) = []
   \<and> handled_decode (run u1_runtime mounted granted_scan) (BarcodeScanned ''TOKEN123'')
   \<and> scanned (run u1_runtime mounted token_sent)
   \<and> handle u1_runtime (handle u1_runtime (run u1_runtime mounted token_sent) Rendered)
        (BarcodeScanned ''TOKEN456'')
       = handle u1_runtime (run u1_runtime mounted token_sent) Rendered
   \<and> decodes_handled u1_runtime mounted token_sent = 1"
proof -
  have a: "cameraBound (run u1_runtime mounted granted_scan)"
    and a': "\<not> scanned (run u1_runtime mounted granted_scan)"
    and r: "requests (run u1_runtime mounted granted_scan) = []"
    unfolding granted_scan_state by (simp_all add: mounted_def)
  have b: "scanned (run u1_runtime mounted token_sent)"
    and n: "length (requests (run u1_runtime mounted token_sent))
       + length (beeping (run u1_runtime mounted token_sent)) = 1"
    and m: "length (requests mounted) + length (beeping mounted) = 0"
    unfolding token_sent_state by (simp_all add: mounted_def)
  note first = decode_sets_latch_then_submits [of "run u1_runtime mounted granted_scan" u1_runtime
      "''TOKEN123''" "BarcodeScanned ''TOKEN123''" "[]"]
  note again = decode_sets_latch_then_submits [of "run u1_runtime mounted token_sent" u1_runtime
      "''TOKEN456''" Rendered "[]"]
  note count = decode_sets_latch_then_submits [of mounted u1_runtime "''TOKEN123''" Rendered
      token_sent]
  have s: "scanned (handle u1_runtime (run u1_runtime mounted granted_scan) (BarcodeScanned ''TOKEN123''))
    \<and> requests (handle u1_runtime (run u1_runtime mounted granted_scan) (BarcodeScanned ''TOKEN123'')) = []"
    using first a r by simp
  then have "handled_decode (run u1_runtime mounted granted_scan) (BarcodeScanned ''TOKEN123'')"
    using first a' by blast
  moreover have "handle u1_runtime (handle u1_runtime (run u1_runtime mounted token_sent) Rendered)
        (BarcodeScanned ''TOKEN456'') = handle u1_runtime (run u1_runtime mounted token_sent) Rendered"
    using again b by blast
  moreover have "decodes_handled u1_runtime mounted token_sent = 1"
    using count n m by linarith
  ultimately show ?thesis using a a' b s by blast
qed

subsection \<open>C3: the outcome of a submission\<close>

text \<open>Claim C3 as stated fails: the body is parsed before the status is read, so a 204
  response without a body ends in the catch branch and shows the error dialog.\<close>

theorem empty_body_is_failure:
  "ok (Response 204 (Unparsable ''JSON Parse error: Unexpected end of input''))
   \<and> \<not> showSuccessModal (run u1_runtime mounted (token_sent @
        [SubmissionSettled (Responded (Response 204
           (Unparsable ''JSON Parse error: Unexpected end of input'')))]))
   \<and> showErrorModal (run u1_runtime mounted (token_sent @
        [SubmissionSettled (Responded (Response 204
           (Unparsable ''JSON Parse error: Unexpected end of input'')))]))"
  by (simp add: run_append token_sent_state)
     (simp add: mounted_def ok_def after_fetch_def check_response_def)

text \<open>Claim C3, amended. A response with a status from 200 to 299 whose body parses as JSON
  shows the success dialog; one whose body does not parse shows the error dialog; every
  response with another status shows the error dialog.\<close>

theorem submission_outcome:
  assumes "0 < unsettled w"
  shows "(ok r \<and> body r = Parsed j \<longrightarrow>
            showSuccessModal (handle rt w (SubmissionSettled (Responded r)))
          \<and> showErrorModal (handle rt w (SubmissionSettled (Responded r))) = showErrorModal w)
    \<and> (ok r \<and> body r = Unparsable m \<longrightarrow>
            showErrorModal (handle rt w (SubmissionSettled (Responded r)))
          \<and> showSuccessModal (handle rt w (SubmissionSettled (Responded r))) = showSuccessModal w)
    \<and> (\<not> ok r \<longrightarrow>
            showErrorModal (handle rt w (SubmissionSettled (Responded r)))
          \<and> showSuccessModal (handle rt w (SubmissionSettled (Responded r))) = showSuccessModal w)"
  using assms
  by (auto simp add: after_fetch_def check_response_def split: body.splits sum.splits)

text \<open>Claim C3, amended, at a 200 response, a 400 response and a 200 response without JSON.\<close>

theorem submission_outcome_witness:
  "0 < unsettled (run u1_runtime mounted token_sent)
   \<and> ok (Response 200 (Parsed (JObj [(''message'', JStr ''Attendance recorded'')])))
   \<and> showSuccessModal (handle u1_runtime (run u1_runtime mounted token_sent)
        (SubmissionSettled (Responded (Response 200
           (Parsed (JObj [(''message'', JStr ''Attendance recorded'')]))))))
   \<and> \<not> ok (Response 400 (Parsed (JObj [(''message'', JStr ''Session expired'')])))
   \<and> showErrorModal (handle u1_runtime (run u1_runtime mounted token_sent)
        (SubmissionSettled (Responded (Response 400
           (Parsed (JObj [(''message'', JStr ''Session expired'')]))))))
   \<and> ok (Response 200 (Unparsable ''JSON Parse error: Unexpected token: O''))
   \<and> showErrorModal (handle u1_runtime (run u1_runtime mounted token_sent)
        (SubmissionSettled (Responded (Response 200
           (Unparsable ''JSON Parse error: Unexpected token: O'')))))"
proof -
  have u: "0 < unsettled (run u1_runtime mounted token_sent)"
    by (simp add: token_sent_state)
  show ?thesis
    using u
      submission_outcome [OF u, where r = "Response 200 (Parsed (JObj [(''message'', JStr ''Attendance recorded'')]))"
        and j = "JObj [(''message'', JStr ''Attendance recorded'')]" and rt = u1_runtime]
      submission_outcome [OF u, where r = "Response 400 (Parsed (JObj [(''message'', JStr ''Session expired'')]))"
        and rt = u1_runtime]
      submission_outcome [OF u, where r = "Response 200 (Unparsable ''JSON Parse error: Unexpected token: O'')"
        and m = "''JSON Parse error: Unexpected token: O''" and rt = u1_runtime]
    by (simp add: ok_def)
qed

subsection \<open>C4: the displayed error message\<close>

text \<open>Claim C4 as stated fails: the class of a failure is read off the text of the error. A
  400 response whose body carries the message \<open>Network request failed\<close> shows the
  connection text instead of that message, and a 502 response whose body is not JSON shows
  the text of the parse error instead of the generic text.\<close>

theorem server_message_not_passed_through:
  "\<not> ok (Response 400 (Parsed (JObj [(''message'', JStr ''Network request failed'')])))
   \<and> errorMessage (run u1_runtime mounted (token_sent @
        [SubmissionSettled (Responded (Response 400
           (Parsed (JObj [(''message'', JStr ''Network request failed'')]))))])) =
       ''Unable to connect to the server. Please check your internet connection.''
   \<and> errorMessage (run u1_runtime mounted (token_sent @
        [SubmissionSettled (Responded (Response 502
           (Unparsable ''JSON Parse error: Unexpected token: <'')))])) =
       ''JSON Parse error: Unexpected token: <''"
  by (simp add: run_append token_sent_state)
     (simp add: mounted_def ok_def after_fetch_def check_response_def get_message_def
       rejection_error_def error_text_def)

text \<open>Claim C4, amended. The displayed message is a function of the text \<open>E\<close> of the error that
  reaches the catch branch. A rejection of the request with the text
  \<open>Network request failed\<close> shows the fixed connection text. A response outside 200 to 299
  whose JSON object carries a string message \<open>M\<close> that is not empty and is not
  \<open>Network request failed\<close> shows exactly \<open>M\<close>; one without a message, or with the empty
  one, shows \<open>Failed to record attendance\<close>. A rejected request or an unparsable body with
  any other text \<open>E\<close> shows \<open>E\<close>, and the generic text only when \<open>E\<close> is empty.\<close>

theorem displayed_error_message:
  assumes "0 < unsettled w"
  shows "errorMessage (handle rt w (SubmissionSettled (FetchRejected ''Network request failed''))) =
           ''Unable to connect to the server. Please check your internet connection.''
    \<and> (\<not> ok r \<and> body r = Parsed (JObj kvs) \<and> map_of (rev kvs) ''message'' = Some (JStr M)
         \<and> M \<noteq> [] \<and> M \<noteq> ''Network request failed'' \<longrightarrow>
         errorMessage (handle rt w (SubmissionSettled (Responded r))) = M)
    \<and> (\<not> ok r \<and> body r = Parsed (JObj kvs)
         \<and> (map_of (rev kvs) ''message'' = None \<or> map_of (rev kvs) ''message'' = Some (JStr [])) \<longrightarrow>
         errorMessage (handle rt w (SubmissionSettled (Responded r))) = ''Failed to record attendance'')
    \<and> ((x = FetchRejected E \<or> (\<exists>s. x = Responded (Response s (Unparsable E)))) \<longrightarrow>
         errorMessage (handle rt w (SubmissionSettled x)) =
           (if E = ''Network request failed''
            then ''Unable to connect to the server. Please check your internet connection.''
            else if E = [] then ''Failed to record attendance'' else E))"
proof -
  have a: "errorMessage (handle rt w (SubmissionSettled (FetchRejected ''Network request failed''))) =
      ''Unable to connect to the server. Please check your internet connection.''"
    using assms by (simp add: errorMessage_after_failure check_response_def error_text_def)
  have b: "errorMessage (handle rt w (SubmissionSettled (Responded r))) = M"
    if "\<not> ok r" "body r = Parsed (JObj kvs)" "map_of (rev kvs) ''message'' = Some (JStr M)"
      "M \<noteq> []" "M \<noteq> ''Network request failed''"
  proof -
    have "check_response rt (Responded r) = Inl (JsError M)"
      using that by (simp add: check_response_def get_message_def rejection_error_def)
    then show ?thesis
      using assms that by (simp add: errorMessage_after_failure error_text_def)
  qed
  have c: "errorMessage (handle rt w (SubmissionSettled (Responded r))) = ''Failed to record attendance''"
    if "\<not> ok r" "body r = Parsed (JObj kvs)"
      "map_of (rev kvs) ''message'' = None \<or> map_of (rev kvs) ''message'' = Some (JStr [])"
  proof -
    have "check_response rt (Responded r) = Inl (JsError ''Failed to record attendance'')"
      using that by (auto simp add: check_response_def get_message_def rejection_error_def)
    then show ?thesis
      using assms by (simp add: errorMessage_after_failure error_text_def)
  qed
  have d: "errorMessage (handle rt w (SubmissionSettled x)) =
      (if E = ''Network request failed''
       then ''Unable to connect to the server. Please check your internet connection.''
       else if E = [] then ''Failed to record attendance'' else E)"
    if "x = FetchRejected E \<or> (\<exists>s. x = Responded (Response s (Unparsable E)))"
  proof -
    have "check_response rt x = Inl (JsError E)"
      using that by (auto simp add: check_response_def)
    then show ?thesis
      using assms by (simp add: errorMessage_after_failure error_text_def)
  qed
  from a b c d show ?thesis by blast
qed

text \<open>Claim C4, amended, at a 400 response with a message, a 500 response without one and a
  request rejected with another text.\<close>

theorem displayed_error_message_witness:
  "0 < unsettled (run u1_runtime mounted token_sent)
   \<and> \<not> ok (Response 400 (Parsed (JObj [(''message'', JStr ''Session expired'')])))
   \<and> errorMessage (handle u1_runtime (run u1_runtime mounted token_sent)
        (SubmissionSettled (Responded (Response 400
           (Parsed (JObj [(''message'', JStr ''Session expired'')])))))) = ''Session expired''
   \<and> \<not> ok (Response 500 (Parsed (JObj [])))
   \<and> errorMessage (handle u1_runtime (run u1_runtime mounted token_sent)
        (SubmissionSettled (Responded (Response 500 (Parsed (JObj [])))))) =
       ''Failed to record attendance''
   \<and> errorMessage (handle u1_runtime (run u1_runtime mounted token_sent)
        (SubmissionSettled (FetchRejected ''Aborted''))) = ''Aborted''"
proof -
  have u: "0 < unsettled (run u1_runtime mounted token_sent)"
    by (simp add: token_sent_state)
  show ?thesis
    using u
      displayed_error_message [OF u, where r = "Response 400 (Parsed (JObj [(''message'', JStr ''Session expired'')]))"
        and kvs = "[(''message'', JStr ''Session expired'')]" and M = "''Session expired''"
        and rt = u1_runtime]
      displayed_error_message [OF u, where r = "Response 500 (Parsed (JObj []))" and kvs = "[]" and rt = u1_runtime]
      displayed_error_message [OF u, where rt = u1_runtime and x = "FetchRejected ''Aborted''" and E = "''Aborted''"]
    by (simp add: ok_def)
qed

subsection \<open>C5: the success dialog and its timer\<close>

text \<open>Claim C5 as stated fails: every success starts a timer of its own and none is ever
  cancelled. When a second submission succeeds one second after a first, the dialog, the
  scanner and the latch are cleared one second later, by the timer of the first.\<close>

theorem earlier_timer_closes_dialog:
  "showSuccessModal (run u1_runtime mounted two_successes)
   \<and> isScannerVisible (run u1_runtime mounted two_successes)
   \<and> scanned (run u1_runtime mounted two_successes)
   \<and> 1000 < delay
   \<and> \<not> showSuccessModal (run u1_runtime mounted (two_successes @ [TimePasses 1000]))
   \<and> \<not> isScannerVisible (run u1_runtime mounted (two_successes @ [TimePasses 1000]))
   \<and> \<not> scanned (run u1_runtime mounted (two_successes @ [TimePasses 1000]))"
  by (simp add: run_append two_successes_state)
     (simp add: mounted_def delay_def time_passes_def timeout_callback_def)

text \<open>Claim C5, amended. When the request settles with a status from 200 to 299 and a JSON
  body, the success dialog is shown and a timer of 2000 milliseconds is started. While only
  time passes, less than 2000 milliseconds in all, and the timer of no earlier success falls
  due, the dialog stays, and the scanner and the latch are as they were; when 2000
  milliseconds have passed the dialog is gone, the scanner is closed and the latch is
  clear.\<close>

theorem success_dialog_closes_after_delay:
  assumes "0 < unsettled w" and "ok r" and "body r = Parsed j"
  shows "delay = 2000
    \<and> showSuccessModal (handle rt w (SubmissionSettled (Responded r)))
    \<and> (sum_list ds < delay \<and> (\<forall>t\<in>set (timers w). now w + sum_list ds < t) \<longrightarrow>
         showSuccessModal (run rt (handle rt w (SubmissionSettled (Responded r))) (map TimePasses ds))
       \<and> isScannerVisible (run rt (handle rt w (SubmissionSettled (Responded r))) (map TimePasses ds))
           = isScannerVisible w
       \<and> scanned (run rt (handle rt w (SubmissionSettled (Responded r))) (map TimePasses ds))
           = scanned w)
    \<and> (sum_list ds = delay \<longrightarrow>
         \<not> showSuccessModal (run rt (handle rt w (SubmissionSettled (Responded r))) (map TimePasses ds))
       \<and> \<not> isScannerVisible (run rt (handle rt w (SubmissionSettled (Responded r))) (map TimePasses ds))
       \<and> \<not> scanned (run rt (handle rt w (SubmissionSettled (Responded r))) (map TimePasses ds)))"
proof -
  define v where "v = handle rt w (SubmissionSettled (Responded r))"
  have v: "v = w\<lparr>unsettled := unsettled w - 1, showSuccessModal := True,
      timers := timers w @ [now w + delay]\<rparr>"
    using assms by (simp add: v_def after_fetch_def check_response_def)
  have early: "run rt v (map TimePasses ds) = v\<lparr>now := now v + sum_list ds\<rparr>"
    if "sum_list ds < delay" "\<forall>t\<in>set (timers w). now w + sum_list ds < t"
    using that by (intro waiting_quiet) (auto simp add: v)
  have due: "\<not> showSuccessModal (run rt v (map TimePasses ds))
      \<and> \<not> isScannerVisible (run rt v (map TimePasses ds))
      \<and> \<not> scanned (run rt v (map TimePasses ds))"
    if "sum_list ds = delay"
  proof (rule waiting_fires [of "now w + delay"])
    show "now w + delay \<in> set (timers v)" by (simp add: v)
    show "now v < now w + delay" by (simp add: v delay_def)
    show "now w + delay \<le> now v + sum_list ds" using that by (simp add: v)
  qed
  have "showSuccessModal v" by (simp add: v)
  moreover have "delay = 2000" by (simp add: delay_def)
  ultimately show ?thesis
    using early due unfolding v_def [symmetric] by (auto simp add: v)
qed

text \<open>Claim C5, amended, at the sent request of \<open>TOKEN123\<close>: after 1999 milliseconds the
  dialog is shown, after 2000 it is not.\<close>

theorem success_dialog_closes_after_delay_witness:
  "0 < unsettled (run u1_runtime mounted token_sent)
   \<and> ok (Response 200 (Parsed (JObj [])))
   \<and> sum_list [1500, 499] < delay
   \<and> showSuccessModal (run u1_runtime
         (handle u1_runtime (run u1_runtime mounted token_sent)
            (SubmissionSettled (Responded (Response 200 (Parsed (JObj []))))))
         (map TimePasses [1500, 499]))
   \<and> isScannerVisible (run u1_runtime
         (handle u1_runtime (run u1_runtime mounted token_sent)
            (SubmissionSettled (Responded (Response 200 (Parsed (JObj []))))))
         (map TimePasses [1500, 499]))
   \<and> sum_list [1500, 500] = delay
   \<and> \<not> showSuccessModal (run u1_runtime
         (handle u1_runtime (run u1_runtime mounted token_sent)
            (SubmissionSettled (Responded (Response 200 (Parsed (JObj []))))))
         (map TimePasses [1500, 500]))
   \<and> \<not> isScannerVisible (run u1_runtime
         (handle u1_runtime (run u1_runtime mounted token_sent)
            (SubmissionSettled (Responded (Response 200 (Parsed (JObj []))))))
         (map TimePasses [1500, 500]))
   \<and> \<not> scanned (run u1_runtime
         (handle u1_runtime (run u1_runtime mounted token_sent)
            (SubmissionSettled (Responded (Response 200 (Parsed (JObj []))))))
         (map TimePasses [1500, 500]))"
proof -
  have u: "0 < unsettled (run u1_runtime mounted token_sent)"
    by (simp add: token_sent_state)
  have k: "ok (Response 200 (Parsed (JObj [])))" by (simp add: ok_def)
  have b: "body (Response 200 (Parsed (JObj []))) = Parsed (JObj [])" by simp
  have t: "timers (run u1_runtime mounted token_sent) = []"
    and v: "isScannerVisible (run u1_runtime mounted token_sent)"
    unfolding token_sent_state by (simp_all add: mounted_def)
  have e: "sum_list [1500, 499] < delay" and l: "sum_list [1500, 500] = delay"
    by (simp_all add: delay_def)
  have q: "\<forall>t\<in>set (timers (run u1_runtime mounted token_sent)).
      now (run u1_runtime mounted token_sent) + sum_list [1500, 499] < t"
    unfolding t by simp
  note early = success_dialog_closes_after_delay [OF u k b, where ds = "[1500, 499]" and rt = u1_runtime]
  note late = success_dialog_closes_after_delay [OF u k b, where ds = "[1500, 500]" and rt = u1_runtime]
  from early e q v have "showSuccessModal (run u1_runtime
         (handle u1_runtime (run u1_runtime mounted token_sent)
            (SubmissionSettled (Responded (Response 200 (Parsed (JObj []))))))
         (map TimePasses [1500, 499]))
     \<and> isScannerVisible (run u1_runtime
         (handle u1_runtime (run u1_runtime mounted token_sent)
            (SubmissionSettled (Responded (Response 200 (Parsed (JObj []))))))
         (map TimePasses [1500, 499]))"
    by blast
  with late l u k e show ?thesis by blast
qed

subsection \<open>C6: pressing the scan button\<close>



subsection \<open>C7: what clears the latch\<close>

text \<open>Claim C7 as stated fails: the close button of the scanner clears the latch, and so does
  the catch branch of a failed submission.\<close>

theorem latch_cleared_by_close_and_failure:
  "scanned (run u1_runtime mounted token_sent)
   \<and> \<not> scanned (run u1_runtime mounted (token_sent @ [PressCloseScanner]))
   \<and> \<not> scanned (run u1_runtime mounted (token_sent @ [SubmissionSettled session_expired]))"
  by (simp add: run_append token_sent_state)
     (simp add: mounted_def session_expired_def ok_def after_fetch_def check_response_def
       get_message_def rejection_error_def)

text \<open>Claim C7, amended. An event that finds the latch set and leaves it clear is
  \<open>Scan Again\<close>, the close button of the scanner, a pending submission that settles as a
  failure, or the passing of time up to the due time of a success timer.\<close>

theorem latch_cleared_only_by:
  assumes "scanned w" and "\<not> scanned (handle rt w e)"
  shows "e = PressScanAgain \<or> e = PressCloseScanner
    \<or> (\<exists>x err. e = SubmissionSettled x \<and> 0 < unsettled w \<and> check_response rt x = Inl err)
    \<or> (\<exists>d. e = TimePasses d \<and> (\<exists>t\<in>set (timers w). t \<le> now w + d))"
proof (cases e)
  case (SubmissionSettled x)
  then show ?thesis
    using assms by (auto simp add: after_fetch_def split: if_splits sum.splits)
next
  case (TimePasses d)
  then show ?thesis
    using assms time_passes_clears [of w d] by simp
next
  case (BarcodeScanned d)
  then show ?thesis
    using assms by (simp add: handleBarCodeScanned_def split: if_splits)
next
  case (BeepDone i)
  then show ?thesis
    using assms by (simp add: after_beep_def split: if_splits)
next
  case (CoursesSettled r)
  then show ?thesis
    using assms by (simp add: fetchEnrolledCourses_def Let_def split: if_splits sum.splits)
next
  case (PermissionSettled p)
  then show ?thesis
    using assms by (simp add: checkPermissions_def split: if_splits permission.splits)
next
  case PressScan
  then show ?thesis
    using assms by (simp add: handleScanPress_def split: if_splits content.splits)
qed (use assms in \<open>simp_all add: handleLogout_def handleConfirmLogout_def split: if_splits\<close>)

text \<open>Claim C7, amended, at the submission of \<open>TOKEN123\<close> that the server rejects.\<close>

theorem latch_cleared_only_by_witness:
  "scanned (run u1_runtime mounted token_sent)
   \<and> \<not> scanned (handle u1_runtime (run u1_runtime mounted token_sent) (SubmissionSettled session_expired))
   \<and> (\<exists>err. check_response u1_runtime session_expired = Inl err)"
proof -
  have a: "scanned (run u1_runtime mounted token_sent)"
    unfolding token_sent_state by (simp add: mounted_def)
  have b: "\<not> scanned (handle u1_runtime (run u1_runtime mounted token_sent)
      (SubmissionSettled session_expired))"
    unfolding token_sent_state
    by (simp add: mounted_def session_expired_def ok_def after_fetch_def check_response_def
        get_message_def rejection_error_def)
  from latch_cleared_only_by [OF a b] a b show ?thesis by auto
qed

subsection \<open>C8: the three dialogs\<close>

text \<open>Claim C8 as stated fails: the back button pressed while a submission is pending opens the
  logout dialog, and the failure of the submission then opens the error dialog over it.\<close>

theorem two_dialogs_active:
  "active_dialogs (run u1_runtime mounted
      (token_sent @ [HardwareBackPress, SubmissionSettled session_expired])) = 2
   \<and> showLogoutConfirm (run u1_runtime mounted
      (token_sent @ [HardwareBackPress, SubmissionSettled session_expired]))
   \<and> showErrorModal (run u1_runtime mounted
      (token_sent @ [HardwareBackPress, SubmissionSettled session_expired]))"
  by (simp add: run_append token_sent_state)
     (simp add: mounted_def session_expired_def ok_def after_fetch_def check_response_def
       get_message_def rejection_error_def active_dialogs_def)

text \<open>Claim C8, amended. The three dialogs are three flags. Every event changes at most one of
  them, and from a state without dialog an event leaves at most one dialog visible; no
  event that opens a dialog closes another one.\<close>

theorem dialog_flags_independent:
  "dialogs_changed w (handle rt w e) \<le> 1
   \<and> (active_dialogs w = 0 \<longrightarrow> active_dialogs (handle rt w e) \<le> 1)"
  using handle_dialogs [of w rt e] dialogs_bound [of "handle rt w e" w] by auto

text \<open>Claim C8, amended, at the back button pressed while the request for \<open>TOKEN123\<close> is
  pending.\<close>

theorem dialog_flags_independent_witness:
  "active_dialogs (run u1_runtime mounted token_sent) = 0
   \<and> active_dialogs (handle u1_runtime (run u1_runtime mounted token_sent) HardwareBackPress) = 1"
proof -
  have a: "active_dialogs (run u1_runtime mounted token_sent) = 0"
    unfolding token_sent_state by (simp add: mounted_def active_dialogs_def)
  have "active_dialogs (handle u1_runtime (run u1_runtime mounted token_sent) HardwareBackPress) \<noteq> 0"
    by (simp add: active_dialogs_def)
  with dialog_flags_independent [of "run u1_runtime mounted token_sent" u1_runtime HardwareBackPress] a
  show ?thesis by simp
qed

subsection \<open>C9: a failed course fetch\<close>

text \<open>Claim C9. When \<open>getCourses\<close> rejects, or resolves with a value that cannot be filtered,
  the error is \<open>Failed to fetch courses. Please try again.\<close>, which the scroll view shows,
  and the course list is unchanged. Whatever the fetch gives, the loading flag is cleared.\<close>

theorem course_fetch_failure:
  assumes "coursesPending w"
  shows "(r = Rejected m \<or> r = NotArray \<longrightarrow>
           error (handle rt w (CoursesSettled r)) = Some ''Failed to fetch courses. Please try again.''
         \<and> courses (handle rt w (CoursesSettled r)) = courses w
         \<and> content (handle rt w (CoursesSettled r)) =
             ErrorContainer ''Failed to fetch courses. Please try again.'')
    \<and> \<not> isLoading (handle rt w (CoursesSettled r))"
  using assms
  by (auto simp add: fetchEnrolledCourses_def enrolledCourses_def content_def Let_def
      split: fetched.splits sum.splits)

text \<open>Claim C9, at a rejected fetch on the mounted screen.\<close>

theorem course_fetch_failure_witness:
  "coursesPending mounted
   \<and> error (handle u1_runtime mounted (CoursesSettled (Rejected ''Network Error''))) =
       Some ''Failed to fetch courses. Please try again.''
   \<and> courses (handle u1_runtime mounted (CoursesSettled (Rejected ''Network Error''))) = []
   \<and> \<not> isLoading (handle u1_runtime mounted (CoursesSettled (Rejected ''Network Error'')))"
proof -
  have p: "coursesPending mounted" by (simp add: mounted_def)
  show ?thesis
    using p course_fetch_failure [OF p, of "Rejected ''Network Error''" "''Network Error''" u1_runtime]
    by (simp add: mounted_def)
qed

subsection \<open>C10: a course without membership list\<close>

text \<open>Claim C10. For a course whose \<open>students\<close> is absent the callback of the filter returns
  false without raising, although the call of \<open>includes\<close> alone would raise a TypeError;
  the filter of any collection returns a list, and that list does not contain the course.\<close>

theorem absent_students_excluded:
  assumes "students c = None"
  shows "enrolled_callback rt c = Inr False
    \<and> call_includes rt (students c) (currentUserId rt) = Inl (JsError (typeErrorText rt))
    \<and> (\<exists>ys. enrolledCourses rt (Array cs) = Inr ys \<and> c \<notin> set ys)"
  using assms
  by (simp add: enrolled_callback_value enrolledCourses_Array lists_user_def call_includes_def)

text \<open>Claim C10, at the course without membership list among the three fetched courses.\<close>

theorem absent_students_excluded_witness:
  "students art = None \<and> enrolled_callback u1_runtime art = Inr False
   \<and> enrolledCourses u1_runtime (Array [math, art, physics]) = Inr [math, physics]"
proof -
  have a: "students art = None" by (simp add: art_def)
  show ?thesis using a absent_students_excluded [OF a, of u1_runtime "[math, art, physics]"]
    by (simp add: enrolledCourses_Array lists_user_def u1_runtime_def math_def art_def physics_def)
qed

end
